theory Spec2Isabelle
  imports
    Main
    "HOL-Library.Char_ord"
    "HOL-Library.List_Lexorder"
    "HOL-Library.Multiset"
begin

section \<open>The Effects preferences panel (src/prefs/EffectsPrefs.cpp)\<close>

subsection \<open>Strings, entries and the plugin registry\<close>

text \<open>
  A \<open>wxString\<close> is a sequence of code units; \<open>operator<\<close> on it compares
  lexicographically, code unit by code unit, which is the order of lists over the linearly
  ordered characters.
\<close>

type_synonym wxString = string

text \<open>\<open>struct Entry { wxString prompt; wxString setting; }\<close>\<close>

record Entry =
  prompt :: wxString
  setting :: wxString

text \<open>
  The part of a \<open>PluginDescriptor\<close> that this file reads: \<open>GetEffectFamily()\<close> and
  \<open>GetSymbol().Msgid()\<close>. \<open>PluginID\<close> is the descriptor's identity in the registry.
\<close>

record PluginDescriptor =
  PluginID :: wxString
  EffectFamily :: wxString
  SymbolMsgid :: wxString

text \<open>
  The plugin registry as this file sees it. \<open>ModulePlugins\<close> is the sequence of
  descriptors that \<open>GetFirstPlugin(PluginTypeModule)\<close> and the following calls of
  \<open>GetNextPlugin(PluginTypeModule)\<close> hand out until the null pointer, in that order;
  \<open>GetPluginEnabledSetting\<close> is the registry's function of that name. Both are declared
  in PluginManager.h and are taken as they come.
\<close>

record PluginManager =
  ModulePlugins :: "PluginDescriptor list"
  GetPluginEnabledSetting :: "PluginDescriptor \<Rightarrow> wxString"

subsection \<open>The table of suggested prompts\<close>

text \<open>
  \<open>const std::map< wxString, wxString > SuggestedPrompts\<close>; \<open>XO\<close> marks a string for
  translation and leaves it as it is.
\<close>

definition SuggestedPrompts :: "wxString \<rightharpoonup> wxString" where
  "SuggestedPrompts =
     map_of
       [(''AudioUnit'', ''Audio Unit''),
        (''LADSPA'', ''&LADSPA''),
        (''LV2'', ''LV&2''),
        (''Nyquist'', ''N&yquist''),
        (''Vamp'', ''&Vamp''),
        (''VST'', ''V&ST'')]"

subsection \<open>\<open>std::sort\<close>\<close>

text \<open>
  The comparison object handed to \<open>std::sort\<close>:
  \<open>[]( const Entry &a, const Entry &b ){ return a.setting < b.setting; }\<close>
\<close>

definition Entry_less :: "Entry \<Rightarrow> Entry \<Rightarrow> bool" where
  "Entry_less a b = (setting a < setting b)"

text \<open>
  \<open>std::sort\<close> belongs to the C++ library. What the language standard promises of it is
  its postcondition: the range holds the same elements as before, and no element is followed
  by one that compares less. The order of elements that compare equivalent is not promised.
\<close>

definition std_sort_post :: "('a \<Rightarrow> 'a \<Rightarrow> bool) \<Rightarrow> 'a list \<Rightarrow> 'a list \<Rightarrow> bool" where
  "std_sort_post cmp before after =
     (mset after = mset before \<and> sorted_wrt (\<lambda>a b. \<not> cmp b a) after)"

text \<open>
  The library's sort is a parameter of the model: a function of the comparison and of the
  range's contents. \<open>std_sort_contract\<close> says that it meets the postcondition on every
  range.
\<close>

type_synonym 'a sort_fn = "('a \<Rightarrow> 'a \<Rightarrow> bool) \<Rightarrow> 'a list \<Rightarrow> 'a list"

definition std_sort_contract :: "'a sort_fn \<Rightarrow> ('a \<Rightarrow> 'a \<Rightarrow> bool) \<Rightarrow> bool" where
  "std_sort_contract srt cmp = (\<forall>xs. std_sort_post cmp xs (srt cmp xs))"

text \<open>
  One sort that meets the contract: insertion sort. An element is put before the first
  element that does not compare less than it, so equivalent elements keep their order. (This
  is also what the library implementations do with a short range.)
\<close>

fun insert_sorted :: "('a \<Rightarrow> 'a \<Rightarrow> bool) \<Rightarrow> 'a \<Rightarrow> 'a list \<Rightarrow> 'a list" where
  "insert_sorted cmp x [] = [x]"
| "insert_sorted cmp x (y # ys) =
     (if cmp y x then y # insert_sorted cmp x ys else x # y # ys)"

definition insertion_sort :: "'a sort_fn" where
  "insertion_sort cmp xs = foldr (insert_sorted cmp) xs []"

subsection \<open>\<open>GetModuleData\<close>\<close>

text \<open>
  The body of the loop of \<open>ModuleData()\<close> for one plugin whose family is not empty: the
  prompt looked up in \<open>SuggestedPrompts\<close>, else the Msgid of the plugin's symbol, and the
  setting path asked of the registry.
\<close>

definition ModuleData_entry :: "PluginManager \<Rightarrow> PluginDescriptor \<Rightarrow> Entry" where
  "ModuleData_entry pm plug =
     (let internal = EffectFamily plug;
          prompt = (case SuggestedPrompts internal of
                      None \<Rightarrow> SymbolMsgid plug
                    | Some second \<Rightarrow> second);
          setting = GetPluginEnabledSetting pm plug
      in \<lparr> prompt = prompt, setting = setting \<rparr>)"

text \<open>
  The \<open>for\<close> loop over the module plugins; \<open>vec\<close> is the vector under construction,
  \<open>continue\<close> skips a plugin with an empty family, \<open>push_back\<close> appends.
\<close>

fun ModuleData_loop :: "PluginManager \<Rightarrow> PluginDescriptor list \<Rightarrow> Entry list \<Rightarrow> Entry list" where
  "ModuleData_loop pm [] vec = vec"
| "ModuleData_loop pm (plug # plugs) vec =
     (let internal = EffectFamily plug
      in if internal = [] then ModuleData_loop pm plugs vec
         else ModuleData_loop pm plugs (vec @ [ModuleData_entry pm plug]))"

text \<open>The constructor \<open>ModuleData()\<close>: the loop, then \<open>std::sort\<close> of the whole vector.\<close>

definition ModuleData :: "Entry sort_fn \<Rightarrow> PluginManager \<Rightarrow> Entry list" where
  "ModuleData srt pm = srt Entry_less (ModuleData_loop pm (ModulePlugins pm) [])"

text \<open>
  \<open>static ModuleData theData;\<close> is constructed when control first passes its declaration and
  lives until the process ends. \<open>None\<close> is the static before its construction.
\<close>

record Process =
  theData :: "Entry list option"

definition GetModuleData :: "Entry sort_fn \<Rightarrow> PluginManager \<Rightarrow> Process \<Rightarrow> Entry list \<times> Process" where
  "GetModuleData srt pm proc =
     (case theData proc of
        Some d \<Rightarrow> (d, proc)
      | None \<Rightarrow> (let d = ModuleData srt pm in (d, proc\<lparr> theData := Some d \<rparr>)))"

subsection \<open>The form builder and the build\<close>

text \<open>
  The two shuttle modes this file constructs a \<open>ShuttleGui\<close> with.
\<close>

datatype teShuttleMode = eIsCreatingFromPrefs | eIsSavingToPrefs

text \<open>
  \<open>ShuttleGui\<close> is declared in ShuttleGui.h. The panel talks to it through the methods
  below; the model records each call with its arguments, in the order of the calls.
  \<open>TieCheckBox (Prompt, SettingName, Default)\<close>,
  \<open>TieChoice (Prompt, SettingName, Default, Choices, InternalChoices)\<close>,
  \<open>TieNumericTextBox (Prompt, SettingName, Default, nChars)\<close>.
\<close>

datatype ShuttleCall =
    SetBorder int
  | StartScroller
  | EndScroller
  | StartStatic wxString
  | EndStatic
  | StartMultiColumn int
  | EndMultiColumn
  | TieCheckBox wxString wxString bool
  | TieChoice wxString wxString wxString "wxString list" "wxString list"
  | TieNumericTextBox wxString wxString int int

record ShuttleGui =
  mShuttleMode :: teShuttleMode
  mCalls :: "ShuttleCall list"

text \<open>\<open>ShuttleGui S(this, mode);\<close>\<close>

definition ShuttleGui_new :: "teShuttleMode \<Rightarrow> ShuttleGui" where
  "ShuttleGui_new mode = \<lparr> mShuttleMode = mode, mCalls = [] \<rparr>"

text \<open>One method call on \<open>S\<close>.\<close>

definition Shuttle :: "ShuttleCall \<Rightarrow> ShuttleGui \<Rightarrow> ShuttleGui" where
  "Shuttle c S = S\<lparr> mCalls := mCalls S @ [c] \<rparr>"

text \<open>
  What the file takes from its surroundings: the translation macro \<open>_( )\<close> and
  \<open>GetCustomTranslation\<close> (both depend on the language chosen at run time), and the
  preprocessor symbols that select code.
\<close>

record Env =
  GetTranslation :: "wxString \<Rightarrow> wxString"
  GetCustomTranslation :: "wxString \<Rightarrow> wxString"
  WXGTK :: bool
  EXPERIMENTAL_EFFECT_MANAGEMENT :: bool
  EXPERIMENTAL_EQ_SSE_THREADED :: bool

subsection \<open>\<open>EffectsPrefs::PopulateOrExchange\<close>, \<open>Populate\<close> and \<open>Commit\<close>\<close>

text \<open>
  The statement \<open>if( c ) c->SetMinSize(c->GetBestSize());\<close> resizes the widget that
  \<open>TieChoice\<close> returned; it calls no method of \<open>S\<close> and touches no setting, and is not
  recorded.
\<close>

definition PopulateOrExchange ::
    "Env \<Rightarrow> Entry sort_fn \<Rightarrow> PluginManager \<Rightarrow> ShuttleGui \<Rightarrow> Process \<Rightarrow> ShuttleGui \<times> Process" where
  "PopulateOrExchange env srt pm S0 proc0 =
     (let S = Shuttle (SetBorder 2) S0;
          S = Shuttle StartScroller S;

          S = Shuttle (StartStatic (GetTranslation env ''Enable Effects'')) S;
          (entries, proc) = GetModuleData srt pm proc0;
          S = fold (\<lambda>entry.
                 Shuttle (TieCheckBox (GetCustomTranslation env (prompt entry)) (setting entry) True))
                entries S;
          S = Shuttle EndStatic S;

          S = Shuttle (StartStatic (GetTranslation env ''Effect Options'')) S;
          S = Shuttle (StartMultiColumn 2) S;
          visualgroups =
            [GetTranslation env ''Sorted by Effect Name'',
             GetTranslation env ''Sorted by Publisher and Effect Name'',
             GetTranslation env ''Sorted by Type and Effect Name'',
             GetTranslation env ''Grouped by Publisher'',
             GetTranslation env ''Grouped by Type''];
          prefsgroups =
            [''sortby:name'',
             ''sortby:publisher:name'',
             ''sortby:type:name'',
             ''groupby:publisher'',
             ''groupby:type''];
          S = Shuttle (TieChoice (GetTranslation env ''S&ort or Group:'')
                         ''/Effects/GroupBy''
                         ''sortby:name''
                         visualgroups
                         prefsgroups) S;
          S = Shuttle (TieNumericTextBox
                         (GetTranslation env ''&Maximum effects per group (0 to disable):'')
                         ''/Effects/MaxPerGroup''
                         (if WXGTK env then 15 else 0)
                         5) S;
          S = Shuttle EndMultiColumn S;
          S = Shuttle EndStatic S;

          S = (if \<not> EXPERIMENTAL_EFFECT_MANAGEMENT env then
                 (let S = Shuttle (StartStatic (GetTranslation env ''Plugin Options'')) S;
                      S = Shuttle (TieCheckBox
                                     (GetTranslation env
                                        ''Check for updated plugins when Audacity starts'')
                                     ''/Plugins/CheckForUpdates''
                                     True) S;
                      S = Shuttle (TieCheckBox
                                     (GetTranslation env
                                        ''Rescan plugins next time Audacity is started'')
                                     ''/Plugins/Rescan''
                                     False) S
                  in Shuttle EndStatic S)
               else S);

          S = (if EXPERIMENTAL_EQ_SSE_THREADED env then
                 (let S = Shuttle (StartStatic (GetTranslation env ''Instruction Set'')) S;
                      S = Shuttle (TieCheckBox (GetTranslation env ''&Use SSE/SSE2/.../AVX'')
                                     ''/SSE/GUI''
                                     True) S
                  in Shuttle EndStatic S)
               else S)
      in (Shuttle EndScroller S, proc))"

text \<open>
  \<open>EffectsPrefs::Populate\<close>, which the constructor calls when the panel is opened. The
  model returns the shuttle as the routine leaves it, so that its calls can be read.
\<close>

definition Populate :: "Env \<Rightarrow> Entry sort_fn \<Rightarrow> PluginManager \<Rightarrow> Process \<Rightarrow> ShuttleGui \<times> Process" where
  "Populate env srt pm proc =
     (let S = ShuttleGui_new eIsCreatingFromPrefs
      in PopulateOrExchange env srt pm S proc)"

text \<open>\<open>EffectsPrefs::Commit\<close>; the first component is the value it returns.\<close>

definition Commit ::
    "Env \<Rightarrow> Entry sort_fn \<Rightarrow> PluginManager \<Rightarrow> Process \<Rightarrow> bool \<times> ShuttleGui \<times> Process" where
  "Commit env srt pm proc =
     (let S = ShuttleGui_new eIsSavingToPrefs;
          (S, proc) = PopulateOrExchange env srt pm S proc
      in (True, S, proc))"

subsection \<open>Reading a shuttle's calls\<close>

text \<open>
  The calls made inside the first static box that was opened with the given title: those
  after its \<open>StartStatic\<close> and before the next \<open>EndStatic\<close>.
\<close>

fun until_EndStatic :: "ShuttleCall list \<Rightarrow> ShuttleCall list" where
  "until_EndStatic [] = []"
| "until_EndStatic (c # cs) = (if c = EndStatic then [] else c # until_EndStatic cs)"

fun in_static :: "wxString \<Rightarrow> ShuttleCall list \<Rightarrow> ShuttleCall list" where
  "in_static title [] = []"
| "in_static title (c # cs) =
     (if c = StartStatic title then until_EndStatic cs else in_static title cs)"

fun is_TieCheckBox :: "ShuttleCall \<Rightarrow> bool" where
  "is_TieCheckBox (TieCheckBox _ _ _) = True"
| "is_TieCheckBox _ = False"

fun is_TieChoice :: "ShuttleCall \<Rightarrow> bool" where
  "is_TieChoice (TieChoice _ _ _ _ _) = True"
| "is_TieChoice _ = False"

fun is_TieNumericTextBox :: "ShuttleCall \<Rightarrow> bool" where
  "is_TieNumericTextBox (TieNumericTextBox _ _ _ _) = True"
| "is_TieNumericTextBox _ = False"

text \<open>The settings key a call binds a control to, if it binds one.\<close>

fun SettingName :: "ShuttleCall \<Rightarrow> wxString option" where
  "SettingName (TieCheckBox _ k _) = Some k"
| "SettingName (TieChoice _ k _ _ _) = Some k"
| "SettingName (TieNumericTextBox _ k _ _) = Some k"
| "SettingName _ = None"

text \<open>
  Modelled from the spec: ShuttleGui.cpp, which moves the values between the controls and
  the settings store, is not among the sources. The spec says of the form builder that a form
  built in load mode reads each bound control's value from its settings key, and that a form
  built in save mode writes each bound control's current value to its settings key.
\<close>

definition keys_read :: "ShuttleGui \<Rightarrow> wxString set" where
  "keys_read S =
     (if mShuttleMode S = eIsCreatingFromPrefs
      then set (List.map_filter SettingName (mCalls S)) else {})"

text \<open>
  Modelled from the spec: the keys that a form built in save mode writes, by the same words of
  the spec; a form built in load mode writes none.
\<close>

definition keys_written :: "ShuttleGui \<Rightarrow> wxString set" where
  "keys_written S =
     (if mShuttleMode S = eIsSavingToPrefs
      then set (List.map_filter SettingName (mCalls S)) else {})"

subsection \<open>Runs and example registries\<close>

text \<open>
  A run of calls of \<open>GetModuleData\<close> in one process. Each call comes with the library sort
  and the registry as they are at that moment.
\<close>

fun GetModuleData_run ::
    "(Entry sort_fn \<times> PluginManager) list \<Rightarrow> Process \<Rightarrow> Entry list list \<times> Process" where
  "GetModuleData_run [] proc = ([], proc)"
| "GetModuleData_run ((srt, pm) # rest) proc =
     (let (d, proc1) = GetModuleData srt pm proc;
          (ds, proc2) = GetModuleData_run rest proc1
      in (d # ds, proc2))"

text \<open>A process in which \<open>GetModuleData\<close> has not been called yet.\<close>

definition fresh :: Process where
  "fresh = \<lparr> theData = None \<rparr>"

text \<open>
  The registry of the spec's scenario, with one more module that has no family of its own
  (as the module of the built-in effects).
\<close>

definition Scenario_pm :: PluginManager where
  "Scenario_pm =
     \<lparr> ModulePlugins =
         [\<lparr> PluginID = ''mod-ladspa'', EffectFamily = ''LADSPA'', SymbolMsgid = ''LADSPA Effects'' \<rparr>,
          \<lparr> PluginID = ''mod-builtin'', EffectFamily = [], SymbolMsgid = ''Builtin Effects'' \<rparr>,
          \<lparr> PluginID = ''mod-myco'', EffectFamily = ''MyCo'', SymbolMsgid = ''MyCo'' \<rparr>,
          \<lparr> PluginID = ''mod-vst'', EffectFamily = ''VST'', SymbolMsgid = ''VST Effects'' \<rparr>],
       GetPluginEnabledSetting =
         (\<lambda>plug. if EffectFamily plug = ''MyCo'' then ''/Plugins/Enable/AAA''
                  else ''/Plugins/Enable/'' @ EffectFamily plug) \<rparr>"

text \<open>
  Two modules of one family that has no suggested prompt, so that they differ in their
  prompts and share their setting path; and the same two in the other order.
\<close>

definition Twin_one :: PluginDescriptor where
  "Twin_one = \<lparr> PluginID = ''mod-one'', EffectFamily = ''MyCo'', SymbolMsgid = ''MyCo One'' \<rparr>"

definition Twin_two :: PluginDescriptor where
  "Twin_two = \<lparr> PluginID = ''mod-two'', EffectFamily = ''MyCo'', SymbolMsgid = ''MyCo Two'' \<rparr>"

definition Twins_pm :: PluginManager where
  "Twins_pm =
     \<lparr> ModulePlugins = [Twin_one, Twin_two],
       GetPluginEnabledSetting = (\<lambda>plug. ''/'' @ EffectFamily plug @ ''/Enable'') \<rparr>"

definition Twins_pm_reordered :: PluginManager where
  "Twins_pm_reordered = Twins_pm\<lparr> ModulePlugins := [Twin_two, Twin_one] \<rparr>"

text \<open>A build for GTK without the experimental sections, and no translation.\<close>

definition Plain_env :: Env where
  "Plain_env =
     \<lparr> GetTranslation = (\<lambda>s. s),
       GetCustomTranslation = (\<lambda>s. s),
       WXGTK = True,
       EXPERIMENTAL_EFFECT_MANAGEMENT = False,
       EXPERIMENTAL_EQ_SSE_THREADED = False \<rparr>"

section \<open>What the loop and the sort do\<close>

lemma ModuleData_loop_eq:
  "ModuleData_loop pm plugs vec =
     vec @ map (ModuleData_entry pm) (filter (\<lambda>p. EffectFamily p \<noteq> []) plugs)"
  by (induction plugs arbitrary: vec) (simp_all add: Let_def)

lemma insert_sorted_insort_key:
  "insert_sorted Entry_less x ys = insort_key setting x ys"
  by (induction ys) (auto simp: Entry_less_def)

lemma insertion_sort_sort_key:
  "insertion_sort Entry_less xs = sort_key setting xs"
  by (induction xs) (simp_all add: insertion_sort_def sort_key_def insert_sorted_insort_key)

lemma sorted_wrt_Entry_less:
  "sorted_wrt (\<lambda>a b. \<not> Entry_less b a) ys = sorted (map setting ys)"
  by (simp add: Entry_less_def sorted_wrt_map not_less)

lemma insertion_sort_contract:
  "std_sort_contract insertion_sort Entry_less"
  by (simp add: std_sort_contract_def std_sort_post_def insertion_sort_sort_key
      sorted_wrt_Entry_less)

lemma contract_mset:
  "std_sort_contract srt cmp \<Longrightarrow> mset (srt cmp xs) = mset xs"
  by (simp add: std_sort_contract_def std_sort_post_def)

lemma contract_sorted:
  "std_sort_contract srt Entry_less \<Longrightarrow> sorted (map setting (srt Entry_less xs))"
  by (simp add: std_sort_contract_def std_sort_post_def sorted_wrt_Entry_less)

lemma GetModuleData_first:
  "theData proc = None \<Longrightarrow>
     GetModuleData srt pm proc = (ModuleData srt pm, proc\<lparr> theData := Some (ModuleData srt pm) \<rparr>)"
  by (simp add: GetModuleData_def Let_def)

lemma mset_ModuleData:
  "std_sort_contract srt Entry_less \<Longrightarrow>
     mset (ModuleData srt pm) =
       mset (map (ModuleData_entry pm) (filter (\<lambda>p. EffectFamily p \<noteq> []) (ModulePlugins pm)))"
  by (simp add: ModuleData_def contract_mset ModuleData_loop_eq)

lemma fst_GetModuleData_first:
  "theData proc = None \<Longrightarrow> fst (GetModuleData srt pm proc) = ModuleData srt pm"
  by (simp add: GetModuleData_first)

lemma length_ModuleData:
  "std_sort_contract srt Entry_less \<Longrightarrow>
     length (ModuleData srt pm) = length (filter (\<lambda>p. EffectFamily p \<noteq> []) (ModulePlugins pm))"
  using mset_ModuleData [of srt pm, THEN mset_eq_length] by simp

lemma set_ModuleData:
  "std_sort_contract srt Entry_less \<Longrightarrow>
     set (ModuleData srt pm) = ModuleData_entry pm ` {p \<in> set (ModulePlugins pm). EffectFamily p \<noteq> []}"
  using mset_ModuleData [of srt pm, THEN mset_eq_setD] by auto

section \<open>Discovery: which modules get an entry\<close>

text \<open>
  C1. The first call of \<open>GetModuleData\<close> in a process returns exactly one entry for each
  module plugin whose effect family is not empty, and none for a module whose family is empty:
  as multisets, the result is the image of the modules with a family under the loop body.
  When no module has a family, and so when there is no module at all, the result is empty.
\<close>

theorem GetModuleData_one_entry_per_family:
  assumes "std_sort_contract srt Entry_less" and "theData proc = None"
  shows "mset (fst (GetModuleData srt pm proc)) =
           image_mset (ModuleData_entry pm)
             (filter_mset (\<lambda>p. EffectFamily p \<noteq> []) (mset (ModulePlugins pm)))
         \<and> length (fst (GetModuleData srt pm proc)) =
             length (filter (\<lambda>p. EffectFamily p \<noteq> []) (ModulePlugins pm))
         \<and> ((\<forall>p \<in> set (ModulePlugins pm). EffectFamily p = []) \<longrightarrow>
              fst (GetModuleData srt pm proc) = [])
         \<and> (ModulePlugins pm = [] \<longrightarrow> fst (GetModuleData srt pm proc) = [])"
proof -
  let ?r = "fst (GetModuleData srt pm proc)"
  have r: "?r = ModuleData srt pm"
    using assms(2) by (rule fst_GetModuleData_first)
  have m: "mset ?r = image_mset (ModuleData_entry pm)
             (filter_mset (\<lambda>p. EffectFamily p \<noteq> []) (mset (ModulePlugins pm)))"
    by (simp add: r mset_ModuleData [OF assms(1)])
  have l: "length ?r = length (filter (\<lambda>p. EffectFamily p \<noteq> []) (ModulePlugins pm))"
    by (simp add: r length_ModuleData [OF assms(1)])
  have e: "?r = []" if "\<forall>p \<in> set (ModulePlugins pm). EffectFamily p = []"
  proof -
    have "filter (\<lambda>p. EffectFamily p \<noteq> []) (ModulePlugins pm) = []"
      using that by (simp add: filter_empty_conv)
    with l show ?thesis by simp
  qed
  from m l e show ?thesis by simp
qed

theorem GetModuleData_one_entry_per_family_witness:
  "std_sort_contract insertion_sort Entry_less \<and> theData fresh = None
   \<and> fst (GetModuleData insertion_sort Scenario_pm fresh) =
       [\<lparr>prompt = ''MyCo'', setting = ''/Plugins/Enable/AAA''\<rparr>,
        \<lparr>prompt = ''&LADSPA'', setting = ''/Plugins/Enable/LADSPA''\<rparr>,
        \<lparr>prompt = ''V&ST'', setting = ''/Plugins/Enable/VST''\<rparr>]
   \<and> length (fst (GetModuleData insertion_sort Scenario_pm fresh)) =
       length (filter (\<lambda>p. EffectFamily p \<noteq> []) (ModulePlugins Scenario_pm))
   \<and> length (filter (\<lambda>p. EffectFamily p \<noteq> []) (ModulePlugins Scenario_pm)) = 3"
proof -
  have f: "theData fresh = None" by (simp add: fresh_def)
  have v: "fst (GetModuleData insertion_sort Scenario_pm fresh) =
       [\<lparr>prompt = ''MyCo'', setting = ''/Plugins/Enable/AAA''\<rparr>,
        \<lparr>prompt = ''&LADSPA'', setting = ''/Plugins/Enable/LADSPA''\<rparr>,
        \<lparr>prompt = ''V&ST'', setting = ''/Plugins/Enable/VST''\<rparr>]"
    by (simp add: GetModuleData_def ModuleData_def Scenario_pm_def fresh_def insertion_sort_def
        ModuleData_entry_def SuggestedPrompts_def Entry_less_def Let_def)
  have n: "length (filter (\<lambda>p. EffectFamily p \<noteq> []) (ModulePlugins Scenario_pm)) = 3"
    by (simp add: Scenario_pm_def)
  from GetModuleData_one_entry_per_family [OF insertion_sort_contract f, of Scenario_pm]
    insertion_sort_contract f v n
  show ?thesis by simp
qed

lemma Scenario_ModuleData:
  "ModuleData insertion_sort Scenario_pm =
     [\<lparr>prompt = ''MyCo'', setting = ''/Plugins/Enable/AAA''\<rparr>,
      \<lparr>prompt = ''&LADSPA'', setting = ''/Plugins/Enable/LADSPA''\<rparr>,
      \<lparr>prompt = ''V&ST'', setting = ''/Plugins/Enable/VST''\<rparr>]"
  by (simp add: ModuleData_def Scenario_pm_def insertion_sort_def
      ModuleData_entry_def SuggestedPrompts_def Entry_less_def Let_def)

lemma fresh_None: "theData fresh = None"
  by (simp add: fresh_def)

lemma ModuleData_entry_simps:
  "setting (ModuleData_entry pm plug) = GetPluginEnabledSetting pm plug"
  "SuggestedPrompts (EffectFamily plug) = Some label \<Longrightarrow>
     ModuleData_entry pm plug = \<lparr> prompt = label, setting = GetPluginEnabledSetting pm plug \<rparr>"
  "SuggestedPrompts (EffectFamily plug) = None \<Longrightarrow>
     ModuleData_entry pm plug = \<lparr> prompt = SymbolMsgid plug, setting = GetPluginEnabledSetting pm plug \<rparr>"
  by (simp_all add: ModuleData_entry_def)

section \<open>Discovery: the prompt of an entry\<close>

text \<open>
  C3. In the result of the first call, a module whose family is not empty and is a key of
  \<open>SuggestedPrompts\<close> has the entry with the table's label and the module's setting path;
  a module whose family is not empty and is not a key of the table has the entry with the Msgid
  of its own symbol. And every entry of the result is the entry of such a module, with the
  prompt chosen this way.
\<close>

theorem GetModuleData_prompt:
  assumes "std_sort_contract srt Entry_less" and "theData proc = None"
  shows "(\<forall>plug \<in> set (ModulePlugins pm). EffectFamily plug \<noteq> [] \<longrightarrow>
            (\<forall>label. SuggestedPrompts (EffectFamily plug) = Some label \<longrightarrow>
               \<lparr> prompt = label, setting = GetPluginEnabledSetting pm plug \<rparr>
                 \<in> set (fst (GetModuleData srt pm proc)))
          \<and> (EffectFamily plug \<notin> dom SuggestedPrompts \<longrightarrow>
               \<lparr> prompt = SymbolMsgid plug, setting = GetPluginEnabledSetting pm plug \<rparr>
                 \<in> set (fst (GetModuleData srt pm proc))))
       \<and> (\<forall>e \<in> set (fst (GetModuleData srt pm proc)).
            \<exists>plug \<in> set (ModulePlugins pm).
              EffectFamily plug \<noteq> [] \<and> setting e = GetPluginEnabledSetting pm plug
              \<and> prompt e = (case SuggestedPrompts (EffectFamily plug) of
                              Some label \<Rightarrow> label
                            | None \<Rightarrow> SymbolMsgid plug))"
proof -
  have r: "set (fst (GetModuleData srt pm proc)) =
             ModuleData_entry pm ` {p \<in> set (ModulePlugins pm). EffectFamily p \<noteq> []}"
    by (simp add: fst_GetModuleData_first [OF assms(2)] set_ModuleData [OF assms(1)])
  have a: "\<lparr> prompt = label, setting = GetPluginEnabledSetting pm plug \<rparr>
             \<in> set (fst (GetModuleData srt pm proc))"
    if "plug \<in> set (ModulePlugins pm)" "EffectFamily plug \<noteq> []"
      "SuggestedPrompts (EffectFamily plug) = Some label" for plug label
    unfolding r using that ModuleData_entry_simps(2) [of plug label pm] by force
  have b: "\<lparr> prompt = SymbolMsgid plug, setting = GetPluginEnabledSetting pm plug \<rparr>
             \<in> set (fst (GetModuleData srt pm proc))"
    if "plug \<in> set (ModulePlugins pm)" "EffectFamily plug \<noteq> []"
      "EffectFamily plug \<notin> dom SuggestedPrompts" for plug
    unfolding r using that ModuleData_entry_simps(3) [of plug pm] by force
  have c: "\<exists>plug \<in> set (ModulePlugins pm).
              EffectFamily plug \<noteq> [] \<and> setting e = GetPluginEnabledSetting pm plug
              \<and> prompt e = (case SuggestedPrompts (EffectFamily plug) of
                              Some label \<Rightarrow> label
                            | None \<Rightarrow> SymbolMsgid plug)"
    if "e \<in> set (fst (GetModuleData srt pm proc))" for e
    using that unfolding r by (auto simp: ModuleData_entry_def split: option.splits)
  from a b c show ?thesis by blast
qed

theorem GetModuleData_prompt_witness:
  "std_sort_contract insertion_sort Entry_less \<and> theData fresh = None
   \<and> \<lparr> prompt = ''&LADSPA'', setting = ''/Plugins/Enable/LADSPA'' \<rparr>
        \<in> set (fst (GetModuleData insertion_sort Scenario_pm fresh))
   \<and> \<lparr> prompt = ''MyCo'', setting = ''/Plugins/Enable/AAA'' \<rparr>
        \<in> set (fst (GetModuleData insertion_sort Scenario_pm fresh))
   \<and> \<lparr> prompt = ''LADSPA Effects'', setting = ''/Plugins/Enable/LADSPA'' \<rparr>
        \<notin> set (fst (GetModuleData insertion_sort Scenario_pm fresh))"
proof -
  let ?ladspa = "\<lparr> PluginID = ''mod-ladspa'', EffectFamily = ''LADSPA'', SymbolMsgid = ''LADSPA Effects'' \<rparr>"
  let ?myco = "\<lparr> PluginID = ''mod-myco'', EffectFamily = ''MyCo'', SymbolMsgid = ''MyCo'' \<rparr>"
  note t = GetModuleData_prompt [OF insertion_sort_contract fresh_None, of Scenario_pm, THEN conjunct1]
  have l: "?ladspa \<in> set (ModulePlugins Scenario_pm)" and m: "?myco \<in> set (ModulePlugins Scenario_pm)"
    by (simp_all add: Scenario_pm_def)
  have sl: "SuggestedPrompts (EffectFamily ?ladspa) = Some ''&LADSPA''"
    and sm: "EffectFamily ?myco \<notin> dom SuggestedPrompts"
    by (simp_all add: SuggestedPrompts_def dom_def)
  have 1: "\<lparr> prompt = ''&LADSPA'', setting = ''/Plugins/Enable/LADSPA'' \<rparr>
        \<in> set (fst (GetModuleData insertion_sort Scenario_pm fresh))"
    using t [rule_format, OF l, THEN conjunct1, rule_format, OF _ sl] by (simp add: Scenario_pm_def)
  have 2: "\<lparr> prompt = ''MyCo'', setting = ''/Plugins/Enable/AAA'' \<rparr>
        \<in> set (fst (GetModuleData insertion_sort Scenario_pm fresh))"
    using t [rule_format, OF m, THEN conjunct2, rule_format, OF _ sm] by (simp add: Scenario_pm_def)
  have 3: "\<lparr> prompt = ''LADSPA Effects'', setting = ''/Plugins/Enable/LADSPA'' \<rparr>
        \<notin> set (fst (GetModuleData insertion_sort Scenario_pm fresh))"
    by (simp add: fst_GetModuleData_first [OF fresh_None] Scenario_ModuleData)
  from insertion_sort_contract fresh_None 1 2 3 show ?thesis by simp
qed

section \<open>Discovery: what decides inclusion\<close>

text \<open>
  C9. Whether a module gets an entry depends only on whether its effect family is empty. Two
  registries whose module sequences agree, position by position, on which families are empty
  give results of the same length on a first call, whatever the symbols, the setting paths,
  the families themselves (in or out of \<open>SuggestedPrompts\<close>) and the library sort are. A
  registry with a single module gives one entry when that module's family is not empty and
  none when it is empty.
\<close>

theorem GetModuleData_inclusion_by_family_only:
  assumes "std_sort_contract srt1 Entry_less" and "std_sort_contract srt2 Entry_less"
    and "theData proc1 = None" and "theData proc2 = None"
    and "map (\<lambda>p. EffectFamily p = []) (ModulePlugins pm1) =
         map (\<lambda>p. EffectFamily p = []) (ModulePlugins pm2)"
  shows "length (fst (GetModuleData srt1 pm1 proc1)) = length (fst (GetModuleData srt2 pm2 proc2))
       \<and> (\<forall>plug. ModulePlugins pm1 = [plug] \<longrightarrow>
            length (fst (GetModuleData srt1 pm1 proc1)) = (if EffectFamily plug = [] then 0 else 1))"
proof -
  have n: "length (filter (\<lambda>p. EffectFamily p \<noteq> []) xs) =
           length (filter (\<lambda>b. \<not> b) (map (\<lambda>p. EffectFamily p = []) xs))"
    for xs :: "PluginDescriptor list"
    by (simp add: filter_map comp_def)
  have l1: "length (fst (GetModuleData srt1 pm1 proc1)) =
              length (filter (\<lambda>p. EffectFamily p \<noteq> []) (ModulePlugins pm1))"
    by (simp add: fst_GetModuleData_first [OF assms(3)] length_ModuleData [OF assms(1)])
  have l2: "length (fst (GetModuleData srt2 pm2 proc2)) =
              length (filter (\<lambda>p. EffectFamily p \<noteq> []) (ModulePlugins pm2))"
    by (simp add: fst_GetModuleData_first [OF assms(4)] length_ModuleData [OF assms(2)])
  have "length (fst (GetModuleData srt1 pm1 proc1)) = length (fst (GetModuleData srt2 pm2 proc2))"
    unfolding l1 l2 n assms(5) ..
  moreover have "length (fst (GetModuleData srt1 pm1 proc1)) = (if EffectFamily plug = [] then 0 else 1)"
    if "ModulePlugins pm1 = [plug]" for plug
    unfolding l1 using that by simp
  ultimately show ?thesis by blast
qed

theorem GetModuleData_inclusion_by_family_only_witness:
  "std_sort_contract insertion_sort Entry_less \<and> theData fresh = None
   \<and> map (\<lambda>p. EffectFamily p = []) (ModulePlugins Scenario_pm) =
       map (\<lambda>p. EffectFamily p = [])
         (ModulePlugins
            \<lparr> ModulePlugins =
                [\<lparr> PluginID = ''a'', EffectFamily = ''Vamp'', SymbolMsgid = [] \<rparr>,
                 \<lparr> PluginID = ''b'', EffectFamily = [], SymbolMsgid = ''Named'' \<rparr>,
                 \<lparr> PluginID = ''c'', EffectFamily = ''X'', SymbolMsgid = [] \<rparr>,
                 \<lparr> PluginID = ''d'', EffectFamily = ''Y'', SymbolMsgid = [] \<rparr>],
              GetPluginEnabledSetting = (\<lambda>plug. []) \<rparr>)
   \<and> length (fst (GetModuleData insertion_sort Scenario_pm fresh)) = 3
   \<and> length (fst (GetModuleData insertion_sort
        \<lparr> ModulePlugins =
            [\<lparr> PluginID = ''a'', EffectFamily = ''Vamp'', SymbolMsgid = [] \<rparr>,
             \<lparr> PluginID = ''b'', EffectFamily = [], SymbolMsgid = ''Named'' \<rparr>,
             \<lparr> PluginID = ''c'', EffectFamily = ''X'', SymbolMsgid = [] \<rparr>,
             \<lparr> PluginID = ''d'', EffectFamily = ''Y'', SymbolMsgid = [] \<rparr>],
          GetPluginEnabledSetting = (\<lambda>plug. []) \<rparr> fresh)) = 3"
proof -
  let ?pm2 = "\<lparr> ModulePlugins =
            [\<lparr> PluginID = ''a'', EffectFamily = ''Vamp'', SymbolMsgid = [] \<rparr>,
             \<lparr> PluginID = ''b'', EffectFamily = [], SymbolMsgid = ''Named'' \<rparr>,
             \<lparr> PluginID = ''c'', EffectFamily = ''X'', SymbolMsgid = [] \<rparr>,
             \<lparr> PluginID = ''d'', EffectFamily = ''Y'', SymbolMsgid = [] \<rparr>],
          GetPluginEnabledSetting = (\<lambda>plug. []) \<rparr>"
  have h: "map (\<lambda>p. EffectFamily p = []) (ModulePlugins Scenario_pm) =
           map (\<lambda>p. EffectFamily p = []) (ModulePlugins ?pm2)"
    by (simp add: Scenario_pm_def)
  have s: "length (fst (GetModuleData insertion_sort Scenario_pm fresh)) = 3"
    by (simp add: fst_GetModuleData_first [OF fresh_None] Scenario_ModuleData)
  from GetModuleData_inclusion_by_family_only
         [OF insertion_sort_contract insertion_sort_contract fresh_None fresh_None h, THEN conjunct1]
    insertion_sort_contract fresh_None h s
  show ?thesis by simp
qed

section \<open>The static: one construction per process\<close>

lemma GetModuleData_theData:
  "theData (snd (GetModuleData srt pm proc)) = Some (fst (GetModuleData srt pm proc))"
  by (simp add: GetModuleData_def Let_def split: option.splits)

lemma GetModuleData_again:
  "theData proc = Some d \<Longrightarrow> GetModuleData srt pm proc = (d, proc)"
  by (simp add: GetModuleData_def)

lemma GetModuleData_run_cached:
  "theData proc = Some d \<Longrightarrow>
     fst (GetModuleData_run calls proc) = replicate (length calls) d
     \<and> snd (GetModuleData_run calls proc) = proc"
  by (induction calls) (auto simp: GetModuleData_again split: prod.splits)

text \<open>
  C4. A second call of \<open>GetModuleData\<close> in the same process returns the sequence that the
  first call returned and leaves the process as the first call left it, even when the registry
  or the library sort are no longer the same: the first call stores its result in the static,
  and a call that finds the static constructed returns it. In a run of any number of calls,
  every call returns what the first call returned.
\<close>

theorem GetModuleData_idempotent:
  "fst (GetModuleData srt2 pm2 (snd (GetModuleData srt1 pm1 proc))) = fst (GetModuleData srt1 pm1 proc)
   \<and> snd (GetModuleData srt2 pm2 (snd (GetModuleData srt1 pm1 proc))) = snd (GetModuleData srt1 pm1 proc)
   \<and> theData (snd (GetModuleData srt1 pm1 proc)) = Some (fst (GetModuleData srt1 pm1 proc))
   \<and> fst (GetModuleData_run ((srt1, pm1) # calls) proc) =
       replicate (Suc (length calls)) (fst (GetModuleData srt1 pm1 proc))"
proof -
  let ?d = "fst (GetModuleData srt1 pm1 proc)" and ?p = "snd (GetModuleData srt1 pm1 proc)"
  have c: "theData ?p = Some ?d" by (rule GetModuleData_theData)
  have "GetModuleData srt2 pm2 ?p = (?d, ?p)" using c by (rule GetModuleData_again)
  moreover have "fst (GetModuleData_run ((srt1, pm1) # calls) proc) = ?d # fst (GetModuleData_run calls ?p)"
    by (simp add: split_beta)
  moreover note GetModuleData_run_cached [OF c, of calls] c
  ultimately show ?thesis by simp
qed

section \<open>Discovery: the order of the result\<close>

lemma sorted_ModuleData:
  "std_sort_contract srt Entry_less \<Longrightarrow> sorted (map setting (ModuleData srt pm))"
  by (simp add: ModuleData_def contract_sorted)

lemma sorted_same_mset_eq:
  fixes xs ys :: "'a::linorder list"
  assumes "sorted xs" and "sorted ys" and "mset xs = mset ys"
  shows "xs = ys"
proof -
  have "sort ys = xs" using assms(3) assms(1) by (rule properties_for_sort)
  moreover have "sort ys = ys" using assms(2) by (rule sorted_sort_id)
  ultimately show ?thesis by simp
qed

lemma ModuleData_entry_cong:
  "GetPluginEnabledSetting pm1 = GetPluginEnabledSetting pm2 \<Longrightarrow>
     ModuleData_entry pm1 = ModuleData_entry pm2"
  by (rule ext) (simp add: ModuleData_entry_def)

lemma mset_collected:
  "mset (map f (filter P xs)) = image_mset f (filter_mset P (mset xs))"
  by simp

lemma mset_ModuleData_reordered:
  assumes "std_sort_contract srt1 Entry_less" and "std_sort_contract srt2 Entry_less"
    and "mset (ModulePlugins pm1) = mset (ModulePlugins pm2)"
    and "GetPluginEnabledSetting pm1 = GetPluginEnabledSetting pm2"
  shows "mset (ModuleData srt1 pm1) = mset (ModuleData srt2 pm2)"
  unfolding mset_ModuleData [OF assms(1)] mset_ModuleData [OF assms(2)] mset_collected
    assms(3) ModuleData_entry_cong [OF assms(4)] ..

text \<open>
  C2, as far as the code goes. The result of a first call is sorted ascending by the setting
  path, in the lexicographic order of strings. For two iteration orders of the same modules
  (with the same setting paths), the two results hold the same entries, each as often, and
  show the same sequence of setting paths; and when no two different entries of the result
  share a setting path (so, when the paths are pairwise distinct), the two results are the
  same sequence.
\<close>

theorem GetModuleData_sorted_order_independent:
  assumes "std_sort_contract srt1 Entry_less" and "std_sort_contract srt2 Entry_less"
    and "theData proc1 = None" and "theData proc2 = None"
    and "mset (ModulePlugins pm1) = mset (ModulePlugins pm2)"
    and "GetPluginEnabledSetting pm1 = GetPluginEnabledSetting pm2"
  shows "sorted (map setting (fst (GetModuleData srt1 pm1 proc1)))
       \<and> mset (fst (GetModuleData srt1 pm1 proc1)) = mset (fst (GetModuleData srt2 pm2 proc2))
       \<and> map setting (fst (GetModuleData srt1 pm1 proc1)) =
           map setting (fst (GetModuleData srt2 pm2 proc2))
       \<and> (inj_on setting (set (fst (GetModuleData srt1 pm1 proc1))) \<longrightarrow>
            fst (GetModuleData srt1 pm1 proc1) = fst (GetModuleData srt2 pm2 proc2))"
proof -
  let ?r1 = "ModuleData srt1 pm1" and ?r2 = "ModuleData srt2 pm2"
  have s1: "sorted (map setting ?r1)" using assms(1) by (rule sorted_ModuleData)
  have s2: "sorted (map setting ?r2)" using assms(2) by (rule sorted_ModuleData)
  have m: "mset ?r1 = mset ?r2"
    using assms(1,2,5,6) by (rule mset_ModuleData_reordered)
  have "mset (map setting ?r1) = mset (map setting ?r2)"
    using m by simp
  with s1 s2 have k: "map setting ?r1 = map setting ?r2"
    by (rule sorted_same_mset_eq)
  have e: "?r1 = ?r2" if "inj_on setting (set ?r1)"
  proof -
    have "set ?r2 = set ?r1" using m by (metis mset_eq_setD)
    with that have "inj_on setting (set ?r1 \<union> set ?r2)" by simp
    then show ?thesis using k by (simp add: inj_on_map_eq_map)
  qed
  from s1 m k e show ?thesis
    by (simp add: fst_GetModuleData_first [OF assms(3)] fst_GetModuleData_first [OF assms(4)])
qed

theorem GetModuleData_sorted_order_independent_witness:
  "std_sort_contract insertion_sort Entry_less \<and> theData fresh = None
   \<and> mset (ModulePlugins Scenario_pm) =
       mset (ModulePlugins (Scenario_pm\<lparr> ModulePlugins := rev (ModulePlugins Scenario_pm) \<rparr>))
   \<and> GetPluginEnabledSetting Scenario_pm =
       GetPluginEnabledSetting (Scenario_pm\<lparr> ModulePlugins := rev (ModulePlugins Scenario_pm) \<rparr>)
   \<and> ModulePlugins Scenario_pm \<noteq> rev (ModulePlugins Scenario_pm)
   \<and> inj_on setting (set (fst (GetModuleData insertion_sort Scenario_pm fresh)))
   \<and> sorted (map setting (fst (GetModuleData insertion_sort Scenario_pm fresh)))
   \<and> fst (GetModuleData insertion_sort Scenario_pm fresh) =
       fst (GetModuleData insertion_sort
              (Scenario_pm\<lparr> ModulePlugins := rev (ModulePlugins Scenario_pm) \<rparr>) fresh)"
proof -
  let ?pm2 = "Scenario_pm\<lparr> ModulePlugins := rev (ModulePlugins Scenario_pm) \<rparr>"
  have m: "mset (ModulePlugins Scenario_pm) = mset (ModulePlugins ?pm2)" by simp
  have g: "GetPluginEnabledSetting Scenario_pm = GetPluginEnabledSetting ?pm2" by simp
  have d: "ModulePlugins Scenario_pm \<noteq> rev (ModulePlugins Scenario_pm)"
    by (simp add: Scenario_pm_def)
  have i: "inj_on setting (set (fst (GetModuleData insertion_sort Scenario_pm fresh)))"
    by (simp add: fst_GetModuleData_first [OF fresh_None] Scenario_ModuleData)
  from GetModuleData_sorted_order_independent
         [OF insertion_sort_contract insertion_sort_contract fresh_None fresh_None m g]
    insertion_sort_contract fresh_None m g d i
  show ?thesis by blast
qed

lemma Twins_ModuleData:
  "ModuleData insertion_sort Twins_pm =
     [\<lparr>prompt = ''MyCo One'', setting = ''/MyCo/Enable''\<rparr>,
      \<lparr>prompt = ''MyCo Two'', setting = ''/MyCo/Enable''\<rparr>]"
  by (simp add: ModuleData_def Twins_pm_def Twin_one_def Twin_two_def insertion_sort_def
      ModuleData_entry_def SuggestedPrompts_def Entry_less_def Let_def)

lemma Twins_reordered_ModuleData:
  "ModuleData insertion_sort Twins_pm_reordered =
     [\<lparr>prompt = ''MyCo Two'', setting = ''/MyCo/Enable''\<rparr>,
      \<lparr>prompt = ''MyCo One'', setting = ''/MyCo/Enable''\<rparr>]"
  by (simp add: ModuleData_def Twins_pm_reordered_def Twins_pm_def Twin_one_def Twin_two_def
      insertion_sort_def ModuleData_entry_def SuggestedPrompts_def Entry_less_def Let_def)

text \<open>
  C2 as it is stated fails where two entries share their setting path and differ in their
  prompts. The two modules of family \<open>MyCo\<close> come out in the order in which the registry
  hands them out: the comparison sees the setting paths only, to it the two entries are
  equivalent, and a sort of a range of two equivalent elements leaves the range as it is.
\<close>

theorem GetModuleData_order_independent_counterexample:
  "mset (ModulePlugins Twins_pm) = mset (ModulePlugins Twins_pm_reordered)
   \<and> GetPluginEnabledSetting Twins_pm = GetPluginEnabledSetting Twins_pm_reordered
   \<and> fst (GetModuleData insertion_sort Twins_pm fresh) =
       [\<lparr>prompt = ''MyCo One'', setting = ''/MyCo/Enable''\<rparr>,
        \<lparr>prompt = ''MyCo Two'', setting = ''/MyCo/Enable''\<rparr>]
   \<and> fst (GetModuleData insertion_sort Twins_pm_reordered fresh) =
       [\<lparr>prompt = ''MyCo Two'', setting = ''/MyCo/Enable''\<rparr>,
        \<lparr>prompt = ''MyCo One'', setting = ''/MyCo/Enable''\<rparr>]
   \<and> fst (GetModuleData insertion_sort Twins_pm fresh) \<noteq>
       fst (GetModuleData insertion_sort Twins_pm_reordered fresh)"
proof -
  have a: "fst (GetModuleData insertion_sort Twins_pm fresh) =
       [\<lparr>prompt = ''MyCo One'', setting = ''/MyCo/Enable''\<rparr>,
        \<lparr>prompt = ''MyCo Two'', setting = ''/MyCo/Enable''\<rparr>]"
    by (simp add: fst_GetModuleData_first [OF fresh_None] Twins_ModuleData)
  have b: "fst (GetModuleData insertion_sort Twins_pm_reordered fresh) =
       [\<lparr>prompt = ''MyCo Two'', setting = ''/MyCo/Enable''\<rparr>,
        \<lparr>prompt = ''MyCo One'', setting = ''/MyCo/Enable''\<rparr>]"
    by (simp add: fst_GetModuleData_first [OF fresh_None] Twins_reordered_ModuleData)
  have m: "mset (ModulePlugins Twins_pm) = mset (ModulePlugins Twins_pm_reordered)"
    by (simp add: Twins_pm_reordered_def Twins_pm_def)
  have g: "GetPluginEnabledSetting Twins_pm = GetPluginEnabledSetting Twins_pm_reordered"
    by (simp add: Twins_pm_reordered_def)
  from a b m g show ?thesis by simp
qed

text \<open>
  The same holds of every sort that meets the contract and reaches the elements through the
  comparison only, that is, commutes with every renaming of the elements that the comparison
  cannot see. Exchanging the two twins is such a renaming.
\<close>

lemma insert_sorted_map:
  "(\<And>a b. cmp (f a) (f b) = cmp a b) \<Longrightarrow>
     insert_sorted cmp (f x) (map f ys) = map f (insert_sorted cmp x ys)"
  by (induction ys) simp_all

lemma insertion_sort_map:
  assumes "\<And>a b. cmp (f a) (f b) = cmp a b"
  shows "insertion_sort cmp (map f xs) = map f (insertion_sort cmp xs)"
  using insert_sorted_map [of cmp f, OF assms]
  by (induction xs) (simp_all add: insertion_sort_def)

lemma mset_pair_cases:
  assumes "mset zs = mset [a, b]"
  shows "zs = [a, b] \<or> zs = [b, a]"
proof -
  have "length zs = 2" using assms [THEN mset_eq_length] by simp
  then obtain x y where zs: "zs = [x, y]"
    by (auto simp: length_Suc_conv numeral_2_eq_2)
  from assms show ?thesis
    unfolding zs by (auto simp: add_eq_conv_ex)
qed

lemma twins_differ_for_every_comparison_sort:
  assumes c: "std_sort_contract srt Entry_less"
    and p: "\<And>f xs. (\<forall>a b. Entry_less (f a) (f b) = Entry_less a b) \<Longrightarrow>
              srt Entry_less (map f xs) = map f (srt Entry_less xs)"
  shows "ModuleData srt Twins_pm \<noteq> ModuleData srt Twins_pm_reordered"
proof -
  let ?one = "\<lparr>prompt = ''MyCo One'', setting = ''/MyCo/Enable''\<rparr>"
  let ?two = "\<lparr>prompt = ''MyCo Two'', setting = ''/MyCo/Enable''\<rparr>"
  let ?f = "\<lambda>e. if e = ?one then ?two else if e = ?two then ?one else e"
  have f: "\<forall>a b. Entry_less (?f a) (?f b) = Entry_less a b"
    by (simp add: Entry_less_def)
  have l1: "ModuleData_loop Twins_pm (ModulePlugins Twins_pm) [] = [?one, ?two]"
    by (simp add: Twins_pm_def Twin_one_def Twin_two_def ModuleData_entry_def
        SuggestedPrompts_def Let_def)
  have l2: "ModuleData_loop Twins_pm_reordered (ModulePlugins Twins_pm_reordered) [] = [?two, ?one]"
    by (simp add: Twins_pm_reordered_def Twins_pm_def Twin_one_def Twin_two_def
        ModuleData_entry_def SuggestedPrompts_def Let_def)
  have "[?two, ?one] = map ?f [?one, ?two]" by simp
  then have e: "srt Entry_less [?two, ?one] = map ?f (srt Entry_less [?one, ?two])"
    using p [OF f, of "[?one, ?two]"] by simp
  have "mset (srt Entry_less [?one, ?two]) = mset [?one, ?two]"
    using c by (rule contract_mset)
  then have "srt Entry_less [?one, ?two] = [?one, ?two] \<or> srt Entry_less [?one, ?two] = [?two, ?one]"
    by (rule mset_pair_cases)
  then have "srt Entry_less [?two, ?one] \<noteq> srt Entry_less [?one, ?two]"
    unfolding e by auto
  then show ?thesis by (simp add: ModuleData_def l1 l2)
qed

section \<open>Discovery: modules that share a setting path\<close>

lemma length_filter_mset_cong:
  assumes "mset xs = mset ys"
  shows "length (filter Q xs) = length (filter Q ys)"
proof -
  have "mset (filter Q xs) = mset (filter Q ys)"
    using assms by simp
  then show ?thesis by (rule mset_eq_length)
qed

lemma count_by_setting:
  assumes "std_sort_contract srt Entry_less"
  shows "length (filter (\<lambda>e. setting e = k) (ModuleData srt pm)) =
         length (filter (\<lambda>p. EffectFamily p \<noteq> [] \<and> GetPluginEnabledSetting pm p = k)
                   (ModulePlugins pm))"
proof -
  have "length (filter (\<lambda>e. setting e = k) (ModuleData srt pm)) =
        length (filter (\<lambda>e. setting e = k)
                  (map (ModuleData_entry pm) (filter (\<lambda>p. EffectFamily p \<noteq> []) (ModulePlugins pm))))"
    using mset_ModuleData [OF assms] by (rule length_filter_mset_cong)
  also have "\<dots> = length (filter (\<lambda>p. EffectFamily p \<noteq> [] \<and> GetPluginEnabledSetting pm p = k)
                   (ModulePlugins pm))"
    by (simp add: filter_map comp_def ModuleData_entry_simps(1) conj_commute)
  finally show ?thesis .
qed

lemma any_tie_order_is_admissible:
  assumes c: "std_sort_contract srt Entry_less"
    and m: "mset zs = mset (ModuleData srt pm)"
    and k: "map setting zs = map setting (ModuleData srt pm)"
  shows "\<exists>srt'. std_sort_contract srt' Entry_less \<and> ModuleData srt' pm = zs"
proof -
  let ?c = "ModuleData_loop pm (ModulePlugins pm) []"
  let ?srt = "\<lambda>cmp xs. if xs = ?c then zs else srt cmp xs"
  have "std_sort_post Entry_less xs (?srt Entry_less xs)" for xs
  proof (cases "xs = ?c")
    case True
    have "mset zs = mset ?c"
      using m by (simp add: ModuleData_def contract_mset [OF c])
    moreover have "sorted (map setting zs)"
      unfolding k using c by (rule sorted_ModuleData)
    ultimately show ?thesis
      using True by (simp add: std_sort_post_def sorted_wrt_Entry_less)
  next
    case False
    then show ?thesis
      using c by (simp add: std_sort_contract_def)
  qed
  then have "std_sort_contract ?srt Entry_less"
    by (simp add: std_sort_contract_def)
  moreover have "ModuleData ?srt pm = zs"
    by (simp add: ModuleData_def)
  ultimately show ?thesis by blast
qed

text \<open>
  C5. Modules that resolve to the same setting path all keep their entries: in the result of
  a first call, the number of entries with a given setting path is the number of modules with
  a family that resolve to it. Their relative order is not fixed by the code: the comparison
  handed to \<open>std::sort\<close> sees the setting paths only, and every arrangement of the result's
  entries that shows the same sequence of setting paths is the result under some sort that
  meets the contract of \<open>std::sort\<close>.
\<close>

theorem GetModuleData_equal_keys_retained:
  assumes "std_sort_contract srt Entry_less" and "theData proc = None"
  shows "(\<forall>k. length (filter (\<lambda>e. setting e = k) (fst (GetModuleData srt pm proc))) =
              length (filter (\<lambda>p. EffectFamily p \<noteq> [] \<and> GetPluginEnabledSetting pm p = k)
                        (ModulePlugins pm)))
       \<and> (\<forall>zs. mset zs = mset (fst (GetModuleData srt pm proc))
                \<and> map setting zs = map setting (fst (GetModuleData srt pm proc)) \<longrightarrow>
              (\<exists>srt'. std_sort_contract srt' Entry_less \<and> fst (GetModuleData srt' pm proc) = zs))"
  using count_by_setting [OF assms(1), of _ pm] any_tie_order_is_admissible [OF assms(1), of _ pm]
  by (simp add: fst_GetModuleData_first [OF assms(2)])

theorem GetModuleData_equal_keys_retained_witness:
  "std_sort_contract insertion_sort Entry_less \<and> theData fresh = None
   \<and> GetPluginEnabledSetting Twins_pm Twin_one = GetPluginEnabledSetting Twins_pm Twin_two
   \<and> length (filter (\<lambda>e. setting e = ''/MyCo/Enable'')
               (fst (GetModuleData insertion_sort Twins_pm fresh))) = 2
   \<and> (\<exists>srt'. std_sort_contract srt' Entry_less
         \<and> fst (GetModuleData srt' Twins_pm fresh) =
             [\<lparr>prompt = ''MyCo Two'', setting = ''/MyCo/Enable''\<rparr>,
              \<lparr>prompt = ''MyCo One'', setting = ''/MyCo/Enable''\<rparr>])"
proof -
  let ?zs = "[\<lparr>prompt = ''MyCo Two'', setting = ''/MyCo/Enable''\<rparr>,
              \<lparr>prompt = ''MyCo One'', setting = ''/MyCo/Enable''\<rparr>]"
  note t = GetModuleData_equal_keys_retained [OF insertion_sort_contract fresh_None, of Twins_pm]
  have r: "fst (GetModuleData insertion_sort Twins_pm fresh) =
       [\<lparr>prompt = ''MyCo One'', setting = ''/MyCo/Enable''\<rparr>,
        \<lparr>prompt = ''MyCo Two'', setting = ''/MyCo/Enable''\<rparr>]"
    by (simp add: fst_GetModuleData_first [OF fresh_None] Twins_ModuleData)
  have g: "GetPluginEnabledSetting Twins_pm Twin_one = GetPluginEnabledSetting Twins_pm Twin_two"
    by (simp add: Twins_pm_def Twin_one_def Twin_two_def)
  have n: "length (filter (\<lambda>p. EffectFamily p \<noteq> [] \<and> GetPluginEnabledSetting Twins_pm p = ''/MyCo/Enable'')
                        (ModulePlugins Twins_pm)) = 2"
    by (simp add: Twins_pm_def Twin_one_def Twin_two_def)
  have 1: "length (filter (\<lambda>e. setting e = ''/MyCo/Enable'')
               (fst (GetModuleData insertion_sort Twins_pm fresh))) = 2"
    using t [THEN conjunct1, rule_format, of "''/MyCo/Enable''"] n by simp
  have "mset ?zs = mset (fst (GetModuleData insertion_sort Twins_pm fresh))
        \<and> map setting ?zs = map setting (fst (GetModuleData insertion_sort Twins_pm fresh))"
    unfolding r by simp
  then have 2: "\<exists>srt'. std_sort_contract srt' Entry_less \<and> fst (GetModuleData srt' Twins_pm fresh) = ?zs"
    by (rule t [THEN conjunct2, rule_format])
  from insertion_sort_contract fresh_None g 1 2 show ?thesis by blast
qed

section \<open>The panel: the calls that build the form\<close>

lemma Shuttle_proj:
  "mCalls (Shuttle c S) = mCalls S @ [c]"
  "mShuttleMode (Shuttle c S) = mShuttleMode S"
  "mCalls (fold (\<lambda>entry. Shuttle (f entry)) entries S) = mCalls S @ map f entries"
  "mShuttleMode (fold (\<lambda>entry. Shuttle (f entry)) entries S) = mShuttleMode S"
proof -
  have "fold (\<lambda>entry. Shuttle (f entry)) entries S = S\<lparr> mCalls := mCalls S @ map f entries \<rparr>"
    by (induction entries arbitrary: S) (simp_all add: Shuttle_def)
  then show "mCalls (fold (\<lambda>entry. Shuttle (f entry)) entries S) = mCalls S @ map f entries"
    and "mShuttleMode (fold (\<lambda>entry. Shuttle (f entry)) entries S) = mShuttleMode S"
    by simp_all
qed (simp_all add: Shuttle_def)

lemma PopulateOrExchange_mode:
  "mShuttleMode (fst (PopulateOrExchange env srt pm S proc)) = mShuttleMode S"
  by (simp add: PopulateOrExchange_def Let_def split_beta Shuttle_proj)

text \<open>The calls of one traversal of \<open>PopulateOrExchange\<close>, section by section.\<close>

lemma PopulateOrExchange_calls:
  "mCalls (fst (PopulateOrExchange env srt pm S proc)) =
     mCalls S
     @ [SetBorder 2, StartScroller, StartStatic (GetTranslation env ''Enable Effects'')]
     @ map (\<lambda>entry. TieCheckBox (GetCustomTranslation env (prompt entry)) (setting entry) True)
         (fst (GetModuleData srt pm proc))
     @ [EndStatic,
        StartStatic (GetTranslation env ''Effect Options''),
        StartMultiColumn 2,
        TieChoice (GetTranslation env ''S&ort or Group:'') ''/Effects/GroupBy'' ''sortby:name''
          [GetTranslation env ''Sorted by Effect Name'',
           GetTranslation env ''Sorted by Publisher and Effect Name'',
           GetTranslation env ''Sorted by Type and Effect Name'',
           GetTranslation env ''Grouped by Publisher'',
           GetTranslation env ''Grouped by Type'']
          [''sortby:name'', ''sortby:publisher:name'', ''sortby:type:name'',
           ''groupby:publisher'', ''groupby:type''],
        TieNumericTextBox (GetTranslation env ''&Maximum effects per group (0 to disable):'')
          ''/Effects/MaxPerGroup'' (if WXGTK env then 15 else 0) 5,
        EndMultiColumn,
        EndStatic]
     @ (if \<not> EXPERIMENTAL_EFFECT_MANAGEMENT env then
          [StartStatic (GetTranslation env ''Plugin Options''),
           TieCheckBox (GetTranslation env ''Check for updated plugins when Audacity starts'')
             ''/Plugins/CheckForUpdates'' True,
           TieCheckBox (GetTranslation env ''Rescan plugins next time Audacity is started'')
             ''/Plugins/Rescan'' False,
           EndStatic]
        else [])
     @ (if EXPERIMENTAL_EQ_SSE_THREADED env then
          [StartStatic (GetTranslation env ''Instruction Set''),
           TieCheckBox (GetTranslation env ''&Use SSE/SSE2/.../AVX'') ''/SSE/GUI'' True,
           EndStatic]
        else [])
     @ [EndScroller]"
  by (simp add: PopulateOrExchange_def Let_def split_beta Shuttle_proj)

lemma PopulateOrExchange_proc:
  "snd (PopulateOrExchange env srt pm S proc) = snd (GetModuleData srt pm proc)"
  by (simp add: PopulateOrExchange_def Let_def split_beta)

lemma until_EndStatic_map:
  "(\<And>e. f e \<noteq> EndStatic) \<Longrightarrow> until_EndStatic (map f es @ EndStatic # rest) = map f es"
  by (induction es) simp_all

lemma Populate_calls:
  "mCalls (fst (Populate env srt pm proc)) =
     mCalls (fst (PopulateOrExchange env srt pm (ShuttleGui_new eIsCreatingFromPrefs) proc))"
  "mShuttleMode (fst (Populate env srt pm proc)) = eIsCreatingFromPrefs"
  "snd (Populate env srt pm proc) = snd (GetModuleData srt pm proc)"
  by (simp_all add: Populate_def PopulateOrExchange_mode PopulateOrExchange_proc ShuttleGui_new_def)

lemma Commit_calls:
  "mCalls (fst (snd (Commit env srt pm proc))) =
     mCalls (fst (PopulateOrExchange env srt pm (ShuttleGui_new eIsSavingToPrefs) proc))"
  "mShuttleMode (fst (snd (Commit env srt pm proc))) = eIsSavingToPrefs"
  "snd (snd (Commit env srt pm proc)) = snd (GetModuleData srt pm proc)"
  by (simp_all add: Commit_def split_beta PopulateOrExchange_mode PopulateOrExchange_proc
      ShuttleGui_new_def)

text \<open>
  C6. When the panel is opened, the form is built in load mode, and the calls inside the
  static box ``Enable Effects'' are exactly one \<open>TieCheckBox\<close> for each entry of the
  result of \<open>GetModuleData\<close>, in the order of the result, each with the entry's translated
  prompt as its label, the entry's setting path as its key, and the default \<open>true\<close>.
\<close>

theorem Populate_one_checkbox_per_entry:
  "mShuttleMode (fst (Populate env srt pm proc)) = eIsCreatingFromPrefs
   \<and> in_static (GetTranslation env ''Enable Effects'') (mCalls (fst (Populate env srt pm proc))) =
       map (\<lambda>entry. TieCheckBox (GetCustomTranslation env (prompt entry)) (setting entry) True)
         (fst (GetModuleData srt pm proc))"
proof -
  have "until_EndStatic
          (map (\<lambda>entry. TieCheckBox (GetCustomTranslation env (prompt entry)) (setting entry) True)
             (fst (GetModuleData srt pm proc)) @ EndStatic # rest) =
        map (\<lambda>entry. TieCheckBox (GetCustomTranslation env (prompt entry)) (setting entry) True)
          (fst (GetModuleData srt pm proc))" for rest
    by (rule until_EndStatic_map) simp
  then show ?thesis
    by (simp add: Populate_calls PopulateOrExchange_calls ShuttleGui_new_def)
qed

text \<open>
  C7. In either mode, the form has exactly one choice control and exactly one numeric field,
  side by side in the static box ``Effect Options''. The choice is bound to
  \<open>/Effects/GroupBy\<close> with the default \<open>sortby:name\<close>; it has five labels, which stand for
  the five codes \<open>sortby:name\<close>, \<open>sortby:publisher:name\<close>, \<open>sortby:type:name\<close>,
  \<open>groupby:publisher\<close>, \<open>groupby:type\<close>, in this order. The numeric field is bound to
  \<open>/Effects/MaxPerGroup\<close>, five characters wide, with the default 15 in a build for GTK
  and 0 in every other build.
\<close>

theorem PopulateOrExchange_effect_options:
  "filter is_TieChoice (mCalls (fst (PopulateOrExchange env srt pm (ShuttleGui_new mode) proc))) =
     [TieChoice (GetTranslation env ''S&ort or Group:'') ''/Effects/GroupBy'' ''sortby:name''
        (map (GetTranslation env)
           [''Sorted by Effect Name'', ''Sorted by Publisher and Effect Name'',
            ''Sorted by Type and Effect Name'', ''Grouped by Publisher'', ''Grouped by Type''])
        [''sortby:name'', ''sortby:publisher:name'', ''sortby:type:name'',
         ''groupby:publisher'', ''groupby:type'']]
   \<and> filter is_TieNumericTextBox
         (mCalls (fst (PopulateOrExchange env srt pm (ShuttleGui_new mode) proc))) =
       [TieNumericTextBox (GetTranslation env ''&Maximum effects per group (0 to disable):'')
          ''/Effects/MaxPerGroup'' (if WXGTK env then 15 else 0) 5]
   \<and> (\<exists>before after.
         mCalls (fst (PopulateOrExchange env srt pm (ShuttleGui_new mode) proc)) =
           before
           @ [StartStatic (GetTranslation env ''Effect Options''), StartMultiColumn 2]
           @ filter is_TieChoice
               (mCalls (fst (PopulateOrExchange env srt pm (ShuttleGui_new mode) proc)))
           @ filter is_TieNumericTextBox
               (mCalls (fst (PopulateOrExchange env srt pm (ShuttleGui_new mode) proc)))
           @ [EndMultiColumn, EndStatic]
           @ after)"
proof -
  let ?log = "mCalls (fst (PopulateOrExchange env srt pm (ShuttleGui_new mode) proc))"
  let ?boxes = "map (\<lambda>entry. TieCheckBox (GetCustomTranslation env (prompt entry)) (setting entry) True)
         (fst (GetModuleData srt pm proc))"
  have nc: "filter is_TieChoice ?boxes = []" and nn: "filter is_TieNumericTextBox ?boxes = []"
    by (simp_all add: filter_empty_conv)
  have c: "filter is_TieChoice ?log =
     [TieChoice (GetTranslation env ''S&ort or Group:'') ''/Effects/GroupBy'' ''sortby:name''
        (map (GetTranslation env)
           [''Sorted by Effect Name'', ''Sorted by Publisher and Effect Name'',
            ''Sorted by Type and Effect Name'', ''Grouped by Publisher'', ''Grouped by Type''])
        [''sortby:name'', ''sortby:publisher:name'', ''sortby:type:name'',
         ''groupby:publisher'', ''groupby:type'']]"
    by (simp add: PopulateOrExchange_calls ShuttleGui_new_def nc)
  have n: "filter is_TieNumericTextBox ?log =
       [TieNumericTextBox (GetTranslation env ''&Maximum effects per group (0 to disable):'')
          ''/Effects/MaxPerGroup'' (if WXGTK env then 15 else 0) 5]"
    by (simp add: PopulateOrExchange_calls ShuttleGui_new_def nn)
  have "?log =
          ([SetBorder 2, StartScroller, StartStatic (GetTranslation env ''Enable Effects'')]
             @ ?boxes @ [EndStatic])
          @ [StartStatic (GetTranslation env ''Effect Options''), StartMultiColumn 2]
          @ filter is_TieChoice ?log
          @ filter is_TieNumericTextBox ?log
          @ [EndMultiColumn, EndStatic]
          @ ((if \<not> EXPERIMENTAL_EFFECT_MANAGEMENT env then
               [StartStatic (GetTranslation env ''Plugin Options''),
                TieCheckBox (GetTranslation env ''Check for updated plugins when Audacity starts'')
                  ''/Plugins/CheckForUpdates'' True,
                TieCheckBox (GetTranslation env ''Rescan plugins next time Audacity is started'')
                  ''/Plugins/Rescan'' False,
                EndStatic]
              else [])
             @ (if EXPERIMENTAL_EQ_SSE_THREADED env then
                  [StartStatic (GetTranslation env ''Instruction Set''),
                   TieCheckBox (GetTranslation env ''&Use SSE/SSE2/.../AVX'') ''/SSE/GUI'' True,
                   EndStatic]
                else [])
             @ [EndScroller])"
    unfolding c n by (simp add: PopulateOrExchange_calls ShuttleGui_new_def)
  then have "\<exists>before after. ?log =
           before
           @ [StartStatic (GetTranslation env ''Effect Options''), StartMultiColumn 2]
           @ filter is_TieChoice ?log
           @ filter is_TieNumericTextBox ?log
           @ [EndMultiColumn, EndStatic]
           @ after"
    by blast
  with c n show ?thesis by blast
qed

text \<open>
  C8. \<open>Commit\<close> returns \<open>true\<close>, whatever the build, the language, the library sort, the
  registry and the state of the process are.
\<close>

theorem Commit_returns_true:
  "fst (Commit env srt pm proc) = True"
  by (simp add: Commit_def split_beta)

section \<open>The panel: opening and committing\<close>

text \<open>
  C10. Opening the panel and committing it run the same routine over a shuttle in load mode
  and over a shuttle in save mode. \<open>Commit\<close> makes the calls that \<open>Populate\<close> made, with the
  same arguments and in the same order, also when the registry has changed in between:
  the entries come from the static. With the form builder of the spec, the settings keys that
  \<open>Commit\<close> writes are therefore the very keys that were read when the panel was opened;
  opening writes none and committing reads none.
\<close>

theorem Commit_writes_the_keys_read:
  assumes "Populate env srt pm proc = (S_open, proc1)"
    and "Commit env srt' pm' proc1 = (ok, S_commit, proc2)"
  shows "mShuttleMode S_open = eIsCreatingFromPrefs \<and> mShuttleMode S_commit = eIsSavingToPrefs
       \<and> mCalls S_commit = mCalls S_open
       \<and> keys_written S_commit = keys_read S_open
       \<and> keys_written S_open = {} \<and> keys_read S_commit = {}
       \<and> proc2 = proc1"
proof -
  have o: "S_open = fst (Populate env srt pm proc)" and p1: "proc1 = snd (Populate env srt pm proc)"
    using assms(1) by simp_all
  have c: "S_commit = fst (snd (Commit env srt' pm' proc1))"
    and p2: "proc2 = snd (snd (Commit env srt' pm' proc1))"
    using assms(2) by simp_all
  have mo: "mShuttleMode S_open = eIsCreatingFromPrefs" by (simp add: o Populate_calls)
  have mc: "mShuttleMode S_commit = eIsSavingToPrefs" by (simp add: c Commit_calls)
  have d: "theData proc1 = Some (fst (GetModuleData srt pm proc))"
    by (simp add: p1 Populate_calls GetModuleData_theData)
  have g: "GetModuleData srt' pm' proc1 = (fst (GetModuleData srt pm proc), proc1)"
    using d by (rule GetModuleData_again)
  have calls: "mCalls S_commit = mCalls S_open"
    by (simp add: o c Populate_calls Commit_calls PopulateOrExchange_calls g ShuttleGui_new_def)
  have "proc2 = proc1" by (simp add: p2 Commit_calls g)
  with mo mc calls show ?thesis by (simp add: keys_read_def keys_written_def)
qed

theorem Commit_writes_the_keys_read_witness:
  "keys_read (fst (Populate Plain_env insertion_sort Scenario_pm fresh)) =
     {''/Plugins/Enable/AAA'', ''/Plugins/Enable/LADSPA'', ''/Plugins/Enable/VST'',
      ''/Effects/GroupBy'', ''/Effects/MaxPerGroup'', ''/Plugins/CheckForUpdates'',
      ''/Plugins/Rescan''}
   \<and> keys_written
         (fst (snd (Commit Plain_env insertion_sort Twins_pm
                      (snd (Populate Plain_env insertion_sort Scenario_pm fresh))))) =
       keys_read (fst (Populate Plain_env insertion_sort Scenario_pm fresh))"
proof -
  let ?open = "Populate Plain_env insertion_sort Scenario_pm fresh"
  let ?commit = "Commit Plain_env insertion_sort Twins_pm (snd ?open)"
  have r: "keys_read (fst ?open) =
     {''/Plugins/Enable/AAA'', ''/Plugins/Enable/LADSPA'', ''/Plugins/Enable/VST'',
      ''/Effects/GroupBy'', ''/Effects/MaxPerGroup'', ''/Plugins/CheckForUpdates'',
      ''/Plugins/Rescan''}"
    by (simp add: keys_read_def Populate_calls PopulateOrExchange_calls ShuttleGui_new_def
        fst_GetModuleData_first [OF fresh_None] Scenario_ModuleData Plain_env_def
        List.map_filter_simps insert_commute)
  have 1: "?open = (fst ?open, snd ?open)" by simp
  have 2: "?commit = (fst ?commit, fst (snd ?commit), snd (snd ?commit))" by simp
  from Commit_writes_the_keys_read [OF 1 2] r show ?thesis by simp
qed

end
